theory Spec2Isabelle
  imports Complex_Main
begin

text \<open>
  A model of the quiz solver: the front door \<open>app.py\<close>, the worker \<open>worker.py\<close> and
  the page handler \<open>handlers/advanced_handler.py\<close>. Pure code is translated function
  by function; what the code calls outside the repository (pandas, BeautifulSoup,
  requests, the browser) enters as data or as a parameter, and what it does to the
  world is returned as a list of effects.
\<close>

section \<open>Strings as Python sees them (ASCII text)\<close>

text \<open>
  Python strings are modelled as \<^typ>\<open>string\<close>, one \<^typ>\<open>char\<close> per character.
  The model covers ASCII text: \<open>str.lower\<close>, \<open>str.strip\<close> and the regular
  expression classes \<open>\s\<close> and \<open>\d\<close> act on the ASCII range only.
\<close>

definition upper_letters :: string where
  "upper_letters = ''ABCDEFGHIJKLMNOPQRSTUVWXYZ''"

definition lower_letters :: string where
  "lower_letters = ''abcdefghijklmnopqrstuvwxyz''"

definition lower_char :: "char \<Rightarrow> char" where
  "lower_char c = (case map_of (zip upper_letters lower_letters) c of Some d \<Rightarrow> d | None \<Rightarrow> c)"

text \<open>\<open>s.lower()\<close>\<close>

definition lower :: "string \<Rightarrow> string" where
  "lower s = map lower_char s"

text \<open>\<open>s.startswith(p)\<close> and \<open>s.endswith(p)\<close>\<close>

definition startswith :: "string \<Rightarrow> string \<Rightarrow> bool" where
  "startswith s p = (take (length p) s = p)"

definition endswith :: "string \<Rightarrow> string \<Rightarrow> bool" where
  "endswith s p = (length p \<le> length s \<and> drop (length s - length p) s = p)"

text \<open>\<open>p in s\<close> for two strings: \<open>p\<close> occurs in \<open>s\<close> as a contiguous run.\<close>

fun contains :: "string \<Rightarrow> string \<Rightarrow> bool" where
  "contains [] p = (p = [])"
| "contains (c # cs) p = (startswith (c # cs) p \<or> contains cs p)"

text \<open>
  The characters \<open>str.isspace\<close> accepts in the ASCII range: tab, line feed, vertical
  tab, form feed, carriage return, the four separators 0x1c..0x1f, and the space.
\<close>

definition is_space :: "char \<Rightarrow> bool" where
  "is_space c = (c \<in> set [CHR 0x09, CHR 0x0A, CHR 0x0B, CHR 0x0C, CHR 0x0D,
                             CHR 0x1C, CHR 0x1D, CHR 0x1E, CHR 0x1F, CHR '' ''])"

definition is_digit :: "char \<Rightarrow> bool" where
  "is_digit c = (c \<in> set ''0123456789'')"

text \<open>\<open>s.strip()\<close>\<close>

definition strip :: "string \<Rightarrow> string" where
  "strip s = rev (dropWhile is_space (rev (dropWhile is_space s)))"

section \<open>JSON values\<close>

text \<open>
  What \<open>json.loads\<close> and Flask's \<open>request.get_json\<close> return. A finite float is
  kept as the rational it denotes; an object is the list of its members, each key once.
  Python's \<open>None\<close> is \<open>JNull\<close>.
\<close>

datatype json =
    JNull
  | JBool bool
  | JInt int
  | JFloat rat
  | JStr string
  | JArr "json list"
  | JObj "(string \<times> json) list"

text \<open>Python truthiness of such a value (\<open>not v\<close> is its negation).\<close>

fun truthy :: "json \<Rightarrow> bool" where
  "truthy JNull = False"
| "truthy (JBool b) = b"
| "truthy (JInt i) = (i \<noteq> 0)"
| "truthy (JFloat r) = (r \<noteq> 0)"
| "truthy (JStr s) = (s \<noteq> [])"
| "truthy (JArr xs) = (xs \<noteq> [])"
| "truthy (JObj kvs) = (kvs \<noteq> [])"

text \<open>\<open>d.get(k)\<close> on a dict: the value, or \<open>None\<close> for a missing key.\<close>

definition dict_get :: "(string \<times> json) list \<Rightarrow> string \<Rightarrow> json" where
  "dict_get kvs k = (case map_of kvs k of Some v \<Rightarrow> v | None \<Rightarrow> JNull)"

section \<open>The HTTP front door: \<open>app.py\<close>\<close>

text \<open>
  \<open>quiz()\<close> of \<open>app.py\<close>. Its inputs are the module-level \<open>EXPECTED_SECRET\<close>
  (\<open>os.getenv\<close>: a string or \<open>None\<close>), the solver it calls, and the request
  body as \<open>request.get_json(force=True)\<close> sees it: \<open>None\<close> when the call raises
  (the body is not JSON), the decoded value otherwise. The result is the pair
  (JSON body, status code) the view returns; \<open>AttributeError\<close> is the exception that
  leaves the view when the decoded value has no \<open>get\<close> method (it is not an object).
\<close>

datatype py_error =
    AttributeError
  | RuntimeError string
  | ValueError
  | MissingKey string
  | RequestError

type_synonym response = "json \<times> nat"

definition error_body :: "string \<Rightarrow> json" where
  "error_body msg = JObj [(''error'', JStr msg)]"

definition quiz ::
  "string option \<Rightarrow> (json \<Rightarrow> json \<Rightarrow> json \<Rightarrow> string + json) \<Rightarrow> json option
     \<Rightarrow> py_error + response" where
  "quiz EXPECTED_SECRET solve_quiz_task body =
     (case body of
        None \<Rightarrow> Inr (error_body ''Invalid JSON'', 400)
      | Some data \<Rightarrow>
          (case data of
             JObj kvs \<Rightarrow>
               (let email = dict_get kvs ''email'';
                    secret = dict_get kvs ''secret'';
                    url = dict_get kvs ''url''
                in case EXPECTED_SECRET of
                     None \<Rightarrow> Inr (error_body ''Server misconfigured: TDS_SECRET not set'', 500)
                   | Some expected \<Rightarrow>
                       if secret \<noteq> JStr expected then Inr (error_body ''Forbidden'', 403)
                       else if \<not> truthy email \<or> \<not> truthy url
                         then Inr (error_body ''Missing email or url'', 400)
                       else (case solve_quiz_task email secret url of
                               Inr result \<Rightarrow>
                                 Inr (JObj [(''status'', JStr ''done''), (''result'', result)], 200)
                             | Inl msg \<Rightarrow> Inr (error_body msg, 500)))
           | _ \<Rightarrow> Inl AttributeError))"

text \<open>The status code of a response, when the view returns one.\<close>

definition status_of :: "py_error + response \<Rightarrow> nat option" where
  "status_of r = (case r of Inr (_, code) \<Rightarrow> Some code | Inl _ \<Rightarrow> None)"

text \<open>A solver that is never reached in the runs below.\<close>

definition solver_unused :: "json \<Rightarrow> json \<Rightarrow> json \<Rightarrow> string + json" where
  "solver_unused email secret url = Inl ''unused''"

section \<open>Format Detector: \<open>detect_file_type\<close>\<close>

text \<open>
  \<open>detect_file_type(url, content_type, content_bytes)\<close>. The content bytes are only
  handed to \<open>magic.from_buffer(content_bytes, mime=True)\<close>; the model takes the outcome
  of that call in their place: the optional module is absent (\<open>magic = None\<close>), the call
  raises, or it returns a MIME string.
\<close>

datatype ftype = Csv | Xlsx | Pdf

datatype sniffed = MagicAbsent | MagicRaises | Mime string

definition detect_file_type :: "string \<Rightarrow> string \<Rightarrow> sniffed \<Rightarrow> ftype option" where
  "detect_file_type url content_type content_bytes =
     (let lc = lower content_type in
      if content_type \<noteq> [] \<and> (contains lc ''csv'' \<or> contains lc ''text/plain'') then Some Csv
      else if content_type \<noteq> [] \<and> (contains lc ''excel'' \<or> contains lc ''spreadsheet''
                \<or> contains lc ''xlsx'' \<or> contains lc ''xls'') then Some Xlsx
      else if content_type \<noteq> [] \<and> contains lc ''pdf'' then Some Pdf
      else
        (let after_magic =
           (if endswith (lower url) ''.csv'' then Some Csv
            else if endswith (lower url) ''.xlsx'' \<or> endswith (lower url) ''.xls'' then Some Xlsx
            else if endswith (lower url) ''.pdf'' then Some Pdf
            else None)
         in case content_bytes of
              Mime m \<Rightarrow>
                (let lm = lower m in
                 if m \<noteq> [] \<and> contains lm ''pdf'' then Some Pdf
                 else if m \<noteq> [] \<and> (contains lm ''excel'' \<or> contains lm ''vnd.ms-excel''
                           \<or> contains lm ''spreadsheet'') then Some Xlsx
                 else if m \<noteq> [] \<and> (contains lm ''csv'' \<or> contains lm ''text/plain'') then Some Csv
                 else after_magic)
            | _ \<Rightarrow> after_magic))"

text \<open>
  The three signals on their own, for stating which one wins: the format the declared
  content-type names, the format the sniffed MIME type names, and the format the URL
  suffix names. Each repeats the markers of the matching block of the function above.
\<close>

definition content_type_format :: "string \<Rightarrow> ftype option" where
  "content_type_format content_type =
     (let lc = lower content_type in
      if content_type = [] then None
      else if contains lc ''csv'' \<or> contains lc ''text/plain'' then Some Csv
      else if contains lc ''excel'' \<or> contains lc ''spreadsheet''
                \<or> contains lc ''xlsx'' \<or> contains lc ''xls'' then Some Xlsx
      else if contains lc ''pdf'' then Some Pdf
      else None)"

definition sniffed_format :: "sniffed \<Rightarrow> ftype option" where
  "sniffed_format content_bytes =
     (case content_bytes of
        Mime m \<Rightarrow>
          (let lm = lower m in
           if m = [] then None
           else if contains lm ''pdf'' then Some Pdf
           else if contains lm ''excel'' \<or> contains lm ''vnd.ms-excel''
                     \<or> contains lm ''spreadsheet'' then Some Xlsx
           else if contains lm ''csv'' \<or> contains lm ''text/plain'' then Some Csv
           else None)
      | _ \<Rightarrow> None)"

definition suffix_format :: "string \<Rightarrow> ftype option" where
  "suffix_format url =
     (if endswith (lower url) ''.csv'' then Some Csv
      else if endswith (lower url) ''.xlsx'' \<or> endswith (lower url) ''.xls'' then Some Xlsx
      else if endswith (lower url) ''.pdf'' then Some Pdf
      else None)"

section \<open>Tables\<close>

text \<open>
  A pandas cell is a string (object dtype), an integer, a finite float (kept as the
  rational it denotes: the 64-bit range of the integers, the rounding of the floats and
  their overflow are outside the model) or missing (\<open>NaN\<close>, \<open>None\<close>). A DataFrame is the list of its columns in order, each a
  name with its cells; two columns may carry the same name.
\<close>

datatype cell = StrV string | IntV int | FltV rat | NaN

type_synonym dataframe = "(string \<times> cell list) list"

text \<open>\<open>df.columns\<close>\<close>

definition columns :: "dataframe \<Rightarrow> string list" where
  "columns df = map fst df"

text \<open>
  \<open>df[c]\<close> for a name \<open>c\<close>: the Series of the one column with that name, a
  DataFrame when several columns share the name, \<open>KeyError\<close> when none has it.
\<close>

datatype selection = Series "cell list" | Frame | KeyError

definition getitem :: "dataframe \<Rightarrow> string \<Rightarrow> selection" where
  "getitem df c =
     (case filter (\<lambda>col. fst col = c) df of
        [] \<Rightarrow> KeyError
      | [col] \<Rightarrow> Series (snd col)
      | _ \<Rightarrow> Frame)"

section \<open>Table Normalizer: \<open>coerce_numeric\<close>\<close>

definition digit_value :: "char \<Rightarrow> nat" where
  "digit_value c =
     (case map_of (zip ''0123456789'' [0, 1, 2, 3, 4, 5, 6, 7, 8, 9]) c of
        Some d \<Rightarrow> d | None \<Rightarrow> 0)"

definition digits_value :: "string \<Rightarrow> nat" where
  "digits_value ds = foldl (\<lambda>n c. 10 * n + digit_value c) 0 ds"

text \<open>\<open>str(i)\<close> for an integer.\<close>

fun nat_digits :: "nat \<Rightarrow> string" where
  "nat_digits n =
     (if n < 10 then [''0123456789'' ! n]
      else nat_digits (n div 10) @ [''0123456789'' ! (n mod 10)])"

definition int_str :: "int \<Rightarrow> string" where
  "int_str i = (if i < 0 then CHR ''-'' # nat_digits (nat (- i)) else nat_digits (nat i))"

text \<open>
  \<open>.astype(str)\<close> on one cell. The text of a float cell is Python's \<open>repr\<close> of the
  float, which is floating-point formatting: it is the parameter \<open>float_repr\<close>.
\<close>

definition astype_str :: "(rat \<Rightarrow> string) \<Rightarrow> cell \<Rightarrow> string" where
  "astype_str float_repr v =
     (case v of
        StrV s \<Rightarrow> s
      | IntV i \<Rightarrow> int_str i
      | FltV r \<Rightarrow> float_repr r
      | NaN \<Rightarrow> ''nan'')"

text \<open>\<open>.str.replace(r'[^\d.\-]+', '', regex=True)\<close>: every run of other characters goes.\<close>

definition strip_non_numeric :: "string \<Rightarrow> string" where
  "strip_non_numeric s = filter (\<lambda>c. is_digit c \<or> c = CHR ''.'' \<or> c = CHR ''-'') s"

text \<open>
  \<open>pd.to_numeric(..., errors='coerce')\<close> on one string of digits, points and minus
  signs: an optional leading minus, digits, an optional point with digits, and at least
  one digit in all. A string without a point is an integer; any other string is missing.
\<close>

definition to_numeric_cell :: "string \<Rightarrow> cell" where
  "to_numeric_cell s =
     (let neg = (s \<noteq> [] \<and> hd s = CHR ''-'');
          body = (if neg then tl s else s);
          ip = takeWhile is_digit body;
          rest = dropWhile is_digit body
      in case rest of
           [] \<Rightarrow>
             if ip = [] then NaN
             else IntV (if neg then - int (digits_value ip) else int (digits_value ip))
         | c # fp \<Rightarrow>
             if c = CHR ''.'' \<and> list_all is_digit fp \<and> (ip \<noteq> [] \<or> fp \<noteq> [])
             then (let r = of_nat (digits_value ip) + of_nat (digits_value fp) / 10 ^ length fp
                   in FltV (if neg then - r else r))
             else NaN)"

text \<open>
  The column \<open>pd.to_numeric\<close> returns: of integer dtype when every cell is an integer,
  of float dtype otherwise (the integers become floats).
\<close>

definition as_float_cell :: "cell \<Rightarrow> cell" where
  "as_float_cell v = (case v of IntV i \<Rightarrow> FltV (of_int i) | _ \<Rightarrow> v)"

definition is_int_cell :: "cell \<Rightarrow> bool" where
  "is_int_cell v = (case v of IntV _ \<Rightarrow> True | _ \<Rightarrow> False)"

definition to_numeric :: "string list \<Rightarrow> cell list" where
  "to_numeric ss =
     (let vs = map to_numeric_cell ss
      in if list_all is_int_cell vs then vs else map as_float_cell vs)"

text \<open>The right-hand side of line 113 on one Series.\<close>

definition coerce_series :: "(rat \<Rightarrow> string) \<Rightarrow> cell list \<Rightarrow> cell list" where
  "coerce_series float_repr vals =
     to_numeric (map (\<lambda>v. strip_non_numeric (astype_str float_repr v)) vals)"

text \<open>
  \<open>coerce_numeric(df)\<close>. For a name that several columns share, \<open>df[c]\<close> is a
  DataFrame, which has no \<open>.str\<close> accessor: the \<open>AttributeError\<close> is swallowed by
  the \<open>except\<close> and those columns stay as they are. The loop assigns to one column
  at a time and changes no name, so it is a map over the columns.
\<close>

definition coerce_numeric :: "(rat \<Rightarrow> string) \<Rightarrow> dataframe \<Rightarrow> dataframe" where
  "coerce_numeric float_repr df =
     map (\<lambda>col.
            case getitem df (fst col) of
              Series vals \<Rightarrow> (fst col, coerce_series float_repr vals)
            | _ \<Rightarrow> col)
         df"

section \<open>Regular expressions\<close>

text \<open>
  The patterns of the source are written in the fragment of Python's \<open>re\<close> they use:
  literals (\<open>LitI\<close> under \<open>re.IGNORECASE\<close>), character classes, greedy and lazy
  repetition of a class, optional parts, sequences, alternatives and capturing groups.
  The classes of the patterns compiled with \<open>re.IGNORECASE\<close> hold no letter, so the
  flag leaves them as they are. \<open>run\<close> is the backtracking matcher: it matches a list of expressions
  one after the other at the start of the string, trying the alternatives in Python's
  order (the greedy choice first), and returns the groups with the rest of the string.
  \<open>EndGrp\<close> is the matcher's own mark for the end of an open group.
\<close>

datatype re =
    Eps
  | Lit string
  | LitI string
  | Cls "char \<Rightarrow> bool"
  | Star "char \<Rightarrow> bool"
  | Plus "char \<Rightarrow> bool"
  | LazyStar "char \<Rightarrow> bool"
  | Opt re
  | Seq re re
  | Alt re re
  | Grp nat re
  | EndGrp nat string

fun weight :: "re \<Rightarrow> nat" where
  "weight (Opt r) = Suc (weight r)"
| "weight (Seq a b) = Suc (weight a + weight b)"
| "weight (Alt a b) = Suc (weight a + weight b)"
| "weight (Grp n r) = Suc (Suc (weight r))"
| "weight (Plus P) = Suc (Suc 0)"
| "weight _ = Suc 0"

type_synonym groups = "nat \<rightharpoonup> string"

function (sequential) run :: "re list \<Rightarrow> string \<Rightarrow> groups \<Rightarrow> (groups \<times> string) option" where
  "run [] s g = Some (g, s)"
| "run (Eps # k) s g = run k s g"
| "run (Lit p # k) s g = (if startswith s p then run k (drop (length p) s) g else None)"
| "run (LitI p # k) s g =
     (if length p \<le> length s \<and> lower (take (length p) s) = lower p
      then run k (drop (length p) s) g else None)"
| "run (Cls P # k) s g = (case s of [] \<Rightarrow> None | c # cs \<Rightarrow> if P c then run k cs g else None)"
| "run (Star P # k) s g =
     (case s of
        [] \<Rightarrow> run k s g
      | c # cs \<Rightarrow>
          if P c then (case run (Star P # k) cs g of Some r \<Rightarrow> Some r | None \<Rightarrow> run k s g)
          else run k s g)"
| "run (Plus P # k) s g =
     (case s of [] \<Rightarrow> None | c # cs \<Rightarrow> if P c then run (Star P # k) cs g else None)"
| "run (LazyStar P # k) s g =
     (case run k s g of
        Some r \<Rightarrow> Some r
      | None \<Rightarrow>
          (case s of [] \<Rightarrow> None | c # cs \<Rightarrow> if P c then run (LazyStar P # k) cs g else None))"
| "run (Opt r # k) s g = (case run (r # k) s g of Some x \<Rightarrow> Some x | None \<Rightarrow> run k s g)"
| "run (Seq a b # k) s g = run (a # b # k) s g"
| "run (Alt a b # k) s g =
     (case run (a # k) s g of Some x \<Rightarrow> Some x | None \<Rightarrow> run (b # k) s g)"
| "run (Grp n r # k) s g = run (r # EndGrp n s # k) s g"
| "run (EndGrp n start # k) s g = run k s (g(n \<mapsto> take (length start - length s) start))"
  by pat_completeness auto
termination
  by (relation "inv_image (less_than <*lex*> less_than)
                  (\<lambda>(k, s, g). (sum_list (map weight k), length s))") auto

text \<open>
  \<open>re.search(pattern, s)\<close>: the match at the leftmost position that has one, as its
  groups (group 0 is the matched text), or \<open>None\<close>.
\<close>

fun search :: "re \<Rightarrow> string \<Rightarrow> groups option" where
  "search r s =
     (case run [r] s Map.empty of
        Some (g, rest) \<Rightarrow> Some (g(0 \<mapsto> take (length s - length rest) s))
      | None \<Rightarrow> (case s of [] \<Rightarrow> None | c # cs \<Rightarrow> search r cs))"

text \<open>\<open>m.group(n)\<close> of a match whose group \<open>n\<close> took part in it.\<close>

definition group :: "groups \<Rightarrow> nat \<Rightarrow> string" where
  "group m n = (case m n of Some s \<Rightarrow> s | None \<Rightarrow> [])"

fun cat :: "re list \<Rightarrow> re" where
  "cat [] = Eps"
| "cat [r] = r"
| "cat (r # rs) = Seq r (cat rs)"

definition any_char :: "char \<Rightarrow> bool" where
  "any_char c = True"

text \<open>The dot, without \<open>re.DOTALL\<close>: any character but the line feed.\<close>

definition dot :: "char \<Rightarrow> bool" where
  "dot c = (c \<noteq> CHR 0x0A)"

definition dquote :: char where
  "dquote = CHR 0x22"

definition squote :: char where
  "squote = CHR 0x27"

section \<open>Instruction Classifier: \<open>detect_instruction\<close>\<close>

text \<open>The class \<open>[a-z0-9 _\-\(\)]\<close> of the captured names.\<close>

definition name_char :: "char \<Rightarrow> bool" where
  "name_char c = (c \<in> set ''abcdefghijklmnopqrstuvwxyz0123456789 _-()'')"

text \<open>\<open>sum of (?:the )?"?([a-z0-9 _\-\(\)]+)"? column\<close>\<close>

definition sum_of_re :: re where
  "sum_of_re =
     cat [Lit ''sum of '', Opt (Lit ''the ''), Opt (Lit [dquote]), Grp 1 (Plus name_char),
          Opt (Lit [dquote]), Lit '' column'']"

text \<open>\<open>(?:mean|average) of (?:the )?"?([a-z0-9 _\-\(\)]+)"? column\<close>\<close>

definition mean_of_re :: re where
  "mean_of_re =
     cat [Alt (Lit ''mean'') (Lit ''average''), Lit '' of '', Opt (Lit ''the ''),
          Opt (Lit [dquote]), Grp 1 (Plus name_char), Opt (Lit [dquote]), Lit '' column'']"

text \<open>\<open>correl(?:ation|ate)(?: between)? ([a-z0-9 _\-\(\)]+) (?:and|,) ([a-z0-9 _\-\(\)]+)\<close>\<close>

definition correl_re :: re where
  "correl_re =
     cat [Lit ''correl'', Alt (Lit ''ation'') (Lit ''ate''), Opt (Lit '' between''), Lit '' '',
          Grp 1 (Plus name_char), Lit '' '', Alt (Lit ''and'') (Lit '',''), Lit '' '',
          Grp 2 (Plus name_char)]"

text \<open>\<open>x[:=]\s*([a-z0-9 _\-\(\)]+)[,;]?\s*y[:=]\s*([a-z0-9 _\-\(\)]+)\<close>\<close>

definition xy_re :: re where
  "xy_re =
     cat [Lit ''x'', Cls (\<lambda>c. c \<in> set '':=''), Star is_space, Grp 1 (Plus name_char),
          Opt (Cls (\<lambda>c. c \<in> set '',;'')), Star is_space,
          Lit ''y'', Cls (\<lambda>c. c \<in> set '':=''), Star is_space, Grp 2 (Plus name_char)]"

text \<open>\<open>sum.*?([a-z0-9 _\-\(\)]+) column\<close>\<close>

definition loose_sum_re :: re where
  "loose_sum_re = cat [Lit ''sum'', LazyStar dot, Grp 1 (Plus name_char), Lit '' column'']"

text \<open>The instruction is the dict the classifier returns.\<close>

type_synonym instr = "string \<rightharpoonup> string"

definition detect_instruction :: "string \<Rightarrow> instr" where
  "detect_instruction text0 =
     (let text = lower text0 in
      case search sum_of_re text of
        Some m \<Rightarrow> [''op'' \<mapsto> ''sum'', ''col'' \<mapsto> strip (group m 1)]
      | None \<Rightarrow>
      (case search mean_of_re text of
        Some m \<Rightarrow> [''op'' \<mapsto> ''mean'', ''col'' \<mapsto> strip (group m 1)]
      | None \<Rightarrow>
      (case search correl_re text of
        Some m \<Rightarrow> [''op'' \<mapsto> ''corr'', ''x'' \<mapsto> strip (group m 1), ''y'' \<mapsto> strip (group m 2)]
      | None \<Rightarrow>
      if contains text ''visual'' \<or> contains text ''plot'' \<or> contains text ''chart'' then
        (case search xy_re text of
           Some m \<Rightarrow> [''op'' \<mapsto> ''plot'', ''x'' \<mapsto> strip (group m 1), ''y'' \<mapsto> strip (group m 2)]
         | None \<Rightarrow> [''op'' \<mapsto> ''plot''])
      else
        (case search loose_sum_re text of
           Some m \<Rightarrow> [''op'' \<mapsto> ''sum'', ''col'' \<mapsto> strip (group m 1)]
         | None \<Rightarrow> Map.empty))))"

text \<open>\<open>instr.get(k)\<close> used as a condition: the key is there with a non-empty value.\<close>

definition instr_truthy :: "instr \<Rightarrow> string \<Rightarrow> bool" where
  "instr_truthy instr k = (case instr k of Some v \<Rightarrow> v \<noteq> [] | None \<Rightarrow> False)"

definition instr_str :: "instr \<Rightarrow> string \<Rightarrow> string" where
  "instr_str instr k = (case instr k of Some v \<Rightarrow> v | None \<Rightarrow> [])"

section \<open>The libraries and the network\<close>

text \<open>
  A Python float is a finite value, kept as the rational it denotes, or \<open>nan\<close>.
\<close>

datatype pyfloat = Fin rat | NaNf

text \<open>
  The chart \<open>df_plot_to_base64\<close> asks pandas for: \<open>df.plot(x=.., y=..)\<close>,
  \<open>df[ycol].plot()\<close> or \<open>df.plot()\<close>.
\<close>

datatype plot_call = PlotXY string string | PlotSeries string | PlotFrame

text \<open>
  The bytes of a downloaded resource, as the libraries read them: what
  \<open>magic.from_buffer\<close> makes of them, the table \<open>pd.read_csv\<close> and \<open>pd.read_excel\<close>
  return (\<open>None\<close> when the call raises) and the table \<open>parse_table_from_pdf_bytes\<close>
  returns (it never raises; \<open>None\<close> is its own \<open>None\<close>).
\<close>

record content =
  magic_mime :: sniffed
  read_csv :: "dataframe option"
  read_excel :: "dataframe option"
  pdf_table :: "dataframe option"

text \<open>A successful \<open>requests.get\<close>: the body and the \<open>Content-Type\<close> header (\<open>''''\<close> when absent).\<close>

record http_response =
  resp_content :: content
  resp_content_type :: string

text \<open>
  Everything the handler calls outside the repository is a field of the environment:
  \<^item> \<open>float_repr\<close>: Python's \<open>repr\<close> of a float;
  \<^item> \<open>pandas_corr\<close>: \<open>df[a].corr(df[b])\<close> as a float, or the message of the exception;
  \<^item> \<open>savefig\<close>: the chart drawn and saved as PNG, base64-encoded, or the message of
    the exception raised on the way;
  \<^item> \<open>urljoin\<close>: \<open>urllib.parse.urljoin\<close>;
  \<^item> \<open>json_loads\<close>: \<open>json.loads\<close>, \<open>None\<close> when it raises;
  \<^item> \<open>page_origin\<close>: what \<open>page.evaluate('() => window.location.origin')\<close> returns,
    \<open>None\<close> when there is no page or the call raises;
  \<^item> \<open>url_origin\<close>: scheme, \<open>://\<close> and netloc of \<open>urlparse(url)\<close>, \<open>None\<close> when
    \<open>urlparse\<close> raises;
  \<^item> \<open>sub_template\<close>: how \<open>re.sub\<close> reads a replacement string that holds a backslash,
    \<open>None\<close> when it raises;
  \<^item> \<open>http_get\<close>: \<open>requests.get\<close> followed by \<open>raise_for_status\<close>, \<open>None\<close> when
    either raises;
  \<^item> \<open>http_post\<close>: the text of the response to \<open>requests.post(url, json=...)\<close> with the
    given body, \<open>None\<close> when the call raises.
\<close>

record env =
  float_repr :: "rat \<Rightarrow> string"
  pandas_corr :: "selection \<Rightarrow> selection \<Rightarrow> string + pyfloat"
  savefig :: "dataframe \<Rightarrow> plot_call \<Rightarrow> string + string"
  urljoin :: "string \<Rightarrow> string \<Rightarrow> string"
  json_loads :: "string \<Rightarrow> json option"
  page_origin :: "string option"
  url_origin :: "string \<Rightarrow> string option"
  sub_template :: "string \<Rightarrow> string option"
  http_get :: "string \<Rightarrow> http_response option"
  http_post :: "string \<Rightarrow> string \<Rightarrow> string option"

text \<open>
  What a run does to the world, in order: downloads, charts, and the POST of a body to
  a URL.
\<close>

datatype effect = Download string | Plot plot_call | Post string string

section \<open>Answer Computer\<close>

text \<open>The answer before it is put in the payload: \<open>None\<close>, a float or a string.\<close>

datatype pyanswer = PyNone | PyFloat pyfloat | PyStr string

definition is_str_cell :: "cell \<Rightarrow> bool" where
  "is_str_cell v = (case v of StrV _ \<Rightarrow> True | _ \<Rightarrow> False)"

definition cell_value :: "cell \<Rightarrow> rat" where
  "cell_value v = (case v of IntV i \<Rightarrow> of_int i | FltV r \<Rightarrow> r | _ \<Rightarrow> 0)"

text \<open>\<open>.dropna()\<close> on a Series\<close>

definition dropna :: "cell list \<Rightarrow> cell list" where
  "dropna vals = filter (\<lambda>v. v \<noteq> NaN) vals"

definition series_to_float_msg :: string where
  "series_to_float_msg =
     ''cannot convert the series to <class '' @ [squote] @ ''float'' @ [squote] @ ''>''"

definition object_sum_msg :: string where
  "object_sum_msg = ''could not convert string to float''"

text \<open>
  \<open>float(df[c].dropna().sum())\<close> and \<open>float(df[c].dropna().mean())\<close>: the float, or the
  message of the exception. On a DataFrame (several columns named \<open>c\<close>) the sum is a
  Series and \<open>float\<close> raises \<open>TypeError\<close>. A Series with string cells is of object
  dtype; none reaches these calls after \<open>coerce_numeric\<close>, and the model gives it the
  error outcome. The mean of no values is \<open>nan\<close>.
\<close>

definition float_sum :: "selection \<Rightarrow> string + pyfloat" where
  "float_sum sel =
     (case sel of
        Series vals \<Rightarrow>
          if list_ex is_str_cell vals then Inl object_sum_msg
          else Inr (Fin (sum_list (map cell_value (dropna vals))))
      | _ \<Rightarrow> Inl series_to_float_msg)"

definition float_mean :: "selection \<Rightarrow> string + pyfloat" where
  "float_mean sel =
     (case sel of
        Series vals \<Rightarrow>
          if list_ex is_str_cell vals then Inl object_sum_msg
          else if dropna vals = [] then Inr NaNf
          else Inr (Fin (sum_list (map cell_value (dropna vals)) / of_nat (length (dropna vals))))
      | _ \<Rightarrow> Inl series_to_float_msg)"

text \<open>
  \<open>df_plot_to_base64(df, xcol, ycol, ...)\<close>: the data URI, or the message of the
  exception, with the chart it asked for. \<open>None\<close> and \<open>''''\<close> are the falsy names.
\<close>

definition opt_truthy :: "string option \<Rightarrow> bool" where
  "opt_truthy s = (case s of Some v \<Rightarrow> v \<noteq> [] | None \<Rightarrow> False)"

definition opt_str :: "string option \<Rightarrow> string" where
  "opt_str s = (case s of Some v \<Rightarrow> v | None \<Rightarrow> [])"

definition df_plot_to_base64 ::
  "env \<Rightarrow> dataframe \<Rightarrow> string option \<Rightarrow> string option \<Rightarrow> (string + string) \<times> effect list" where
  "df_plot_to_base64 e df xcol ycol =
     (let call =
        (if opt_truthy xcol \<and> opt_truthy ycol \<and> opt_str xcol \<in> set (columns df)
              \<and> opt_str ycol \<in> set (columns df)
           then PlotXY (opt_str xcol) (opt_str ycol)
         else if opt_truthy ycol \<and> opt_str ycol \<in> set (columns df) then PlotSeries (opt_str ycol)
         else PlotFrame)
      in (case savefig e df call of
            Inl msg \<Rightarrow> Inl msg
          | Inr b64 \<Rightarrow> Inr (''data:image/png;base64,'' @ b64),
          [Plot call]))"

text \<open>\<open>df.select_dtypes(include=['number']).columns\<close>: the columns without string cells.\<close>

definition numeric_columns :: "dataframe \<Rightarrow> string list" where
  "numeric_columns df = map fst (filter (\<lambda>col. \<not> list_ex is_str_cell (snd col)) df)"

text \<open>
  The \<open>try\<close> block of \<open>handle_quiz_page\<close> (lines 315 to 355): \<open>Raised msg\<close> when an
  exception is caught there, the answer and the attachment otherwise.
\<close>

datatype outcome = Raised string | Computed pyanswer "string option"

definition as_answer :: "string + pyfloat \<Rightarrow> outcome" where
  "as_answer r = (case r of Inl msg \<Rightarrow> Raised msg | Inr f \<Rightarrow> Computed (PyFloat f) None)"

definition as_plot :: "(string + string) \<times> effect list \<Rightarrow> outcome \<times> effect list" where
  "as_plot r =
     (case fst r of
        Inl msg \<Rightarrow> (Raised msg, snd r)
      | Inr uri \<Rightarrow> (Computed (PyStr ''attached_plot'') (Some uri), snd r))"

definition compute_answer :: "env \<Rightarrow> dataframe \<Rightarrow> instr \<Rightarrow> outcome \<times> effect list" where
  "compute_answer e df instr =
     (if instr ''op'' = Some ''sum'' \<and> instr_truthy instr ''col'' then
        (let col = instr_str instr ''col'';
             matched = filter (\<lambda>c. lower (strip c) = lower col) (columns df)
         in if matched \<noteq> [] then (as_answer (float_sum (getitem df (hd matched))), [])
            else
              (let matched = filter (\<lambda>c. contains (lower c) (lower col)) (columns df)
               in if matched \<noteq> [] then (as_answer (float_sum (getitem df (hd matched))), [])
                  else (Computed PyNone None, [])))
      else if instr ''op'' = Some ''mean'' \<and> instr_truthy instr ''col'' then
        (let col = instr_str instr ''col'';
             matched = filter (\<lambda>c. lower (strip c) = lower col) (columns df)
         in if matched \<noteq> [] then (as_answer (float_mean (getitem df (hd matched))), [])
            else (Computed PyNone None, []))
      else if instr ''op'' = Some ''corr'' \<and> instr_truthy instr ''x'' \<and> instr_truthy instr ''y'' then
        (let x = instr_str instr ''x''; y = instr_str instr ''y'';
             mx = filter (\<lambda>c. lower (strip c) = lower x) (columns df);
             my = filter (\<lambda>c. lower (strip c) = lower y) (columns df)
         in if mx \<noteq> [] \<and> my \<noteq> []
            then (as_answer (pandas_corr e (getitem df (hd mx)) (getitem df (hd my))), [])
            else (Computed PyNone None, []))
      else if instr ''op'' = Some ''plot'' then
        (let x = instr ''x''; y = instr ''y''
         in if opt_truthy y \<and> opt_str y \<in> set (columns df)
            then as_plot (df_plot_to_base64 e df x y)
            else
              (let numcols = numeric_columns df
               in if length numcols > 0
                  then as_plot (df_plot_to_base64 e df None (Some (hd numcols)))
                  else (Computed PyNone None, [])))
      else
        (if ''value'' \<in> set (map (\<lambda>c. lower (strip c)) (columns df))
         then (as_answer (float_sum (getitem df
                 (hd (filter (\<lambda>c. lower (strip c) = ''value'') (columns df))))), [])
         else (Computed PyNone None, [])))"

text \<open>
  Python's \<open>round(x)\<close> for a finite float: the nearest integer, the even one of the two
  when \<open>x\<close> lies halfway.
\<close>

definition py_round :: "rat \<Rightarrow> int" where
  "py_round x =
     (let f = \<lfloor>x\<rfloor>; d = x - of_int f
      in if d < 1 / 2 then f
         else if 1 / 2 < d then f + 1
         else if even f then f else f + 1)"

text \<open>
  Lines 363 and 364 on a float answer: \<open>round(nan)\<close> raises \<open>ValueError\<close>, outside the
  \<open>try\<close> block, so the exception leaves the handler.
\<close>

definition render_float :: "pyfloat \<Rightarrow> py_error + json" where
  "render_float a =
     (case a of
        NaNf \<Rightarrow> Inl ValueError
      | Fin r \<Rightarrow>
          if \<bar>of_int (py_round r) - r\<bar> < 1 / 10 ^ 8 then Inr (JInt (py_round r))
          else Inr (JFloat r))"

text \<open>
  The answer as it stands in the payload when an attachment goes with it (line 358). The
  attachment is only ever set together with the string \<open>attached_plot\<close>; a \<open>nan\<close>
  has no JSON value here and does not occur in that place.
\<close>

definition answer_json :: "pyanswer \<Rightarrow> json" where
  "answer_json a =
     (case a of
        PyNone \<Rightarrow> JNull
      | PyStr s \<Rightarrow> JStr s
      | PyFloat (Fin r) \<Rightarrow> JFloat r
      | PyFloat NaNf \<Rightarrow> JNull)"

text \<open>Lines 307 to 309: trimmed column names, then \<open>coerce_numeric\<close>.\<close>

definition clean_and_coerce :: "env \<Rightarrow> dataframe \<Rightarrow> dataframe" where
  "clean_and_coerce e df = coerce_numeric (float_repr e) (map (\<lambda>col. (strip (fst col), snd col)) df)"

text \<open>
  Lines 307 to 366 of \<open>handle_quiz_page\<close>, from the located table and the page text to
  the \<open>answer\<close> and \<open>attachment\<close> entries of the payload.
\<close>

definition answer_entries ::
  "env \<Rightarrow> dataframe \<Rightarrow> string \<Rightarrow> (py_error + (string \<times> json) list) \<times> effect list" where
  "answer_entries e df0 body_text =
     (let df = clean_and_coerce e df0;
          instr = detect_instruction body_text;
          r = compute_answer e df instr
      in (case fst r of
            Raised msg \<Rightarrow> Inr [(''answer'', JStr (''error computing instruction: '' @ msg))]
          | Computed answer attachment \<Rightarrow>
              if opt_truthy attachment then
                Inr [(''answer'', answer_json answer), (''attachment'', JStr (opt_str attachment))]
              else
                (case answer of
                   PyNone \<Rightarrow> Inr [(''answer'', JStr ''no_answer_generated'')]
                 | PyFloat f \<Rightarrow>
                     (case render_float f of
                        Inl err \<Rightarrow> Inl err
                      | Inr v \<Rightarrow> Inr [(''answer'', v)])
                 | PyStr s \<Rightarrow> Inr [(''answer'', JStr s)]),
          snd r))"

section \<open>The page\<close>

text \<open>
  The \<open>html\<close> argument of \<open>handle_quiz_page\<close>, as BeautifulSoup and pandas parse it:
  \<^item> \<open>body_text\<close>: \<open>soup.get_text("\n")\<close>;
  \<^item> \<open>scripts\<close>: \<open>s.string\<close> of every \<open>script\<close> element that has a non-empty one, in
    document order;
  \<^item> \<open>form_action\<close>: the \<open>action\<close> attribute of \<open>soup.find("form", action=True)\<close>, the
    first form that has the attribute; \<open>None\<close> when no form has it;
  \<^item> \<open>hrefs\<close>: the \<open>href\<close> attribute of every \<open>a\<close> element that has one;
  \<^item> \<open>pre_code\<close>: \<open>get_text()\<close> of every \<open>pre\<close> and \<open>code\<close> element;
  \<^item> \<open>html_tables\<close>: what \<open>parse_tables_from_html(html) if html else []\<close> gives.
\<close>

record parsed_html =
  body_text :: string
  scripts :: "string list"
  form_action :: "string option"
  hrefs :: "string list"
  pre_code :: "string list"
  html_tables :: "dataframe list"

section \<open>Submission-Target Resolver\<close>

definition quote_char :: "char \<Rightarrow> bool" where
  "quote_char c = (c \<in> set [dquote, squote])"

text \<open>The class \<open>[^\s'"<>]\<close>\<close>

definition url_char :: "char \<Rightarrow> bool" where
  "url_char c = (\<not> is_space c \<and> c \<notin> set [squote, dquote, CHR ''<'', CHR ''>''])"

text \<open>
  Rule 1:
  \<open>https?://[^\s'"<>]*(?:/submit|/scrape|/api/submit|/submit-answer|/submit_result)[^\s'"<>]*\<close>
\<close>

definition submit_path_re :: re where
  "submit_path_re =
     cat [LitI ''http'', Opt (LitI ''s''), Lit ''://'', Star url_char,
          Alt (LitI ''/submit'') (Alt (LitI ''/scrape'') (Alt (LitI ''/api/submit'')
            (Alt (LitI ''/submit-answer'') (LitI ''/submit_result'')))),
          Star url_char]"

text \<open>Rule 2: \<open>["']submit[_-]?url["']\s*:\s*["'](https?://[^"']+)["']\<close>\<close>

definition submit_key_re :: re where
  "submit_key_re =
     cat [Cls quote_char, LitI ''submit'', Opt (Cls (\<lambda>c. c \<in> set ''_-'')), LitI ''url'',
          Cls quote_char, Star is_space, Lit '':'', Star is_space, Cls quote_char,
          Grp 1 (cat [LitI ''http'', Opt (LitI ''s''), Lit ''://'', Plus (\<lambda>c. \<not> quote_char c)]),
          Cls quote_char]"

text \<open>Rule 2: \<open>["'](https?://[^"']*(?:submit|scrape)[^"']*)["']\<close>\<close>

definition quoted_submit_re :: re where
  "quoted_submit_re =
     cat [Cls quote_char,
          Grp 1 (cat [LitI ''http'', Opt (LitI ''s''), Lit ''://'', Star (\<lambda>c. \<not> quote_char c),
                      Alt (LitI ''submit'') (LitI ''scrape''), Star (\<lambda>c. \<not> quote_char c)]),
          Cls quote_char]"

text \<open>Rule 4: \<open>(submit|scrape|api)\<close>\<close>

definition submit_word_re :: re where
  "submit_word_re = Grp 1 (Alt (LitI ''submit'') (Alt (LitI ''scrape'') (LitI ''api'')))"

text \<open>Rule 5: \<open>\{[\s\S]*?\}\<close>\<close>

definition brace_re :: re where
  "brace_re = cat [Lit ''{'', LazyStar any_char, Lit ''}'']"

text \<open>Rule 5: \<open><span[^>]*class=["']origin["'][^>]*>.*?</span>\<close>\<close>

definition origin_span_re :: re where
  "origin_span_re =
     cat [LitI ''<span'', Star (\<lambda>c. c \<noteq> CHR ''>''), LitI ''class='', Cls quote_char,
          LitI ''origin'', Cls quote_char, Star (\<lambda>c. c \<noteq> CHR ''>''), Lit ''>'',
          LazyStar dot, LitI ''</span>'']"

text \<open>Rule 6: \<open>https?://[^\s'"<>]*(?:submit|scrape)[^\s'"<>]*\<close>\<close>

definition any_submit_re :: re where
  "any_submit_re =
     cat [LitI ''http'', Opt (LitI ''s''), Lit ''://'', Star url_char,
          Alt (LitI ''submit'') (LitI ''scrape''), Star url_char]"

text \<open>
  \<open>re.sub(pattern, repl, s)\<close> for a pattern that matches no empty string: every match,
  from the left and without overlap, is replaced by \<open>repl\<close>.
\<close>

function re_sub :: "re \<Rightarrow> string \<Rightarrow> string \<Rightarrow> string" where
  "re_sub r repl s =
     (case run [r] s Map.empty of
        Some (g, rest) \<Rightarrow>
          if length rest < length s then repl @ re_sub r repl rest
          else (case s of [] \<Rightarrow> [] | c # cs \<Rightarrow> c # re_sub r repl cs)
      | None \<Rightarrow> (case s of [] \<Rightarrow> [] | c # cs \<Rightarrow> c # re_sub r repl cs))"
  by pat_completeness auto
termination
  by (relation "measure (\<lambda>(r, repl, s). length s)") auto

text \<open>\<open>s.replace(old, new)\<close> for a non-empty \<open>old\<close>\<close>

function replace :: "string \<Rightarrow> string \<Rightarrow> string \<Rightarrow> string" where
  "replace s old new =
     (case s of
        [] \<Rightarrow> []
      | c # cs \<Rightarrow>
          if old \<noteq> [] \<and> startswith s old then new @ replace (drop (length old) s) old new
          else c # replace cs old new)"
  by pat_completeness auto
termination
  by (relation "measure (\<lambda>(s, old, new). length s)") auto

text \<open>Rule 1 (lines 176 to 179)\<close>

definition absolute_submit_url :: "parsed_html \<Rightarrow> string option" where
  "absolute_submit_url html =
     (case search submit_path_re (body_text html) of Some m \<Rightarrow> Some (group m 0) | None \<Rightarrow> None)"

text \<open>Rule 2 (lines 181 to 192): the first script with a match ends the loop.\<close>

fun script_submit_url :: "string list \<Rightarrow> string option" where
  "script_submit_url [] = None"
| "script_submit_url (st # rest) =
     (if st = [] then script_submit_url rest
      else (case search submit_key_re st of
              Some m2 \<Rightarrow> Some (group m2 1)
            | None \<Rightarrow>
                (case search quoted_submit_re st of
                   Some m3 \<Rightarrow> Some (group m3 1)
                 | None \<Rightarrow> script_submit_url rest)))"

text \<open>Rule 3 (lines 194 to 203)\<close>

definition form_action_url :: "env \<Rightarrow> parsed_html \<Rightarrow> string \<Rightarrow> string option" where
  "form_action_url e html base_url =
     (case form_action html of
        None \<Rightarrow> None
      | Some action \<Rightarrow>
          if action \<noteq> [] then
            (if startswith action ''http'' then Some action
             else if base_url \<noteq> [] then Some (urljoin e base_url action)
             else None)
          else None)"

text \<open>Rule 4 (lines 205 to 211)\<close>

fun href_submit_url :: "env \<Rightarrow> string \<Rightarrow> string list \<Rightarrow> string option" where
  "href_submit_url e base_url [] = None"
| "href_submit_url e base_url (href # rest) =
     (if href \<noteq> [] \<and> search submit_word_re href \<noteq> None then Some (urljoin e base_url href)
      else href_submit_url e base_url rest)"

text \<open>
  Rule 5 (lines 213 to 246). The origin that replaces the placeholder: the live one
  when there is one, else the one of the base URL; \<open>None\<close> when neither is there or
  \<open>urlparse\<close> raises, and then the loop goes on to the next block.
\<close>

definition live_origin :: "env \<Rightarrow> string \<Rightarrow> string option" where
  "live_origin e base_url =
     (if opt_truthy (page_origin e) then page_origin e
      else if base_url \<noteq> [] then
        (case url_origin e base_url of
           Some origin \<Rightarrow> if origin \<noteq> [] then Some origin else None
         | None \<Rightarrow> None)
      else None)"

definition fix_candidate :: "env \<Rightarrow> string \<Rightarrow> string \<Rightarrow> string option" where
  "fix_candidate e origin candidate =
     (case (if CHR 0x5C \<in> set origin then sub_template e origin else Some origin) of
        None \<Rightarrow> None
      | Some repl \<Rightarrow>
          Some (replace (replace (re_sub origin_span_re repl candidate)
                           ''window.location.origin'' origin)
                  ''{{origin}}'' origin))"

fun pre_code_url :: "env \<Rightarrow> string \<Rightarrow> string list \<Rightarrow> string option" where
  "pre_code_url e base_url [] = None"
| "pre_code_url e base_url (txt # rest) =
     (case search brace_re txt of
        None \<Rightarrow> pre_code_url e base_url rest
      | Some jm \<Rightarrow>
          (case json_loads e (group jm 0) of
             Some (JObj kvs) \<Rightarrow>
               (case map_of kvs ''url'' of
                  Some (JStr candidate) \<Rightarrow>
                    if contains candidate ''<span'' \<or> contains candidate ''window.location.origin''
                         \<or> contains candidate ''{{origin}}''
                    then
                      (case live_origin e base_url of
                         None \<Rightarrow> pre_code_url e base_url rest
                       | Some origin \<Rightarrow>
                           (case fix_candidate e origin candidate of
                              None \<Rightarrow> pre_code_url e base_url rest
                            | Some candidate_fixed \<Rightarrow> Some (urljoin e origin candidate_fixed)))
                    else Some (urljoin e base_url candidate)
                | _ \<Rightarrow> pre_code_url e base_url rest)
           | _ \<Rightarrow> pre_code_url e base_url rest))"

text \<open>Rule 6 (lines 248 to 252)\<close>

definition fallback_submit_url :: "parsed_html \<Rightarrow> string option" where
  "fallback_submit_url html =
     (case search any_submit_re (body_text html) of Some m4 \<Rightarrow> Some (group m4 0) | None \<Rightarrow> None)"

text \<open>
  Lines 173 to 252: each rule is tried only while \<open>submit_url\<close> is still falsy
  (\<open>None\<close> or empty).
\<close>

definition discover_submit_url :: "env \<Rightarrow> parsed_html \<Rightarrow> string \<Rightarrow> string option" where
  "discover_submit_url e html base_url =
     (let submit_url = absolute_submit_url html;
          submit_url = (if \<not> opt_truthy submit_url then script_submit_url (scripts html)
                        else submit_url);
          submit_url = (if \<not> opt_truthy submit_url then form_action_url e html base_url
                        else submit_url);
          submit_url = (if \<not> opt_truthy submit_url then href_submit_url e base_url (hrefs html)
                        else submit_url);
          submit_url = (if \<not> opt_truthy submit_url then pre_code_url e base_url (pre_code html)
                        else submit_url);
          submit_url = (if \<not> opt_truthy submit_url then fallback_submit_url html
                        else submit_url)
      in submit_url)"

section \<open>Dataset Locator\<close>

text \<open>
  \<open>download_url_bytes(url, base_url)\<close>: the bytes, the declared content-type and the
  resolved URL, or \<open>None\<close> when the request raises; with the download it makes.
\<close>

definition download_url_bytes ::
  "env \<Rightarrow> string \<Rightarrow> string \<Rightarrow> (content \<times> string \<times> string) option \<times> effect list" where
  "download_url_bytes e url base_url =
     (let url = (if base_url \<noteq> [] then urljoin e base_url url else url)
      in (case http_get e url of
            None \<Rightarrow> None
          | Some resp \<Rightarrow> Some (resp_content resp, resp_content_type resp, url),
          [Download url]))"

text \<open>
  \<open>parse_table_from_bytes(content_bytes, ftype, url)\<close>: \<open>Inl\<close> when the pandas reader
  raises, else what the function returns.
\<close>

definition parse_table_from_bytes :: "content \<Rightarrow> ftype option \<Rightarrow> unit + dataframe option" where
  "parse_table_from_bytes content_bytes ftype =
     (if ftype = Some Csv then
        (case read_csv content_bytes of Some df \<Rightarrow> Inr (Some df) | None \<Rightarrow> Inl ())
      else if ftype = Some Xlsx then
        (case read_excel content_bytes of Some df \<Rightarrow> Inr (Some df) | None \<Rightarrow> Inl ())
      else Inr None)"

text \<open>Lines 259 to 268: the hyperlinks that name a data file.\<close>

definition dataset_candidates :: "parsed_html \<Rightarrow> string list" where
  "dataset_candidates html =
     filter (\<lambda>link. list_ex (\<lambda>ext. contains (lower link) ext) [''.csv'', ''.xls'', ''.xlsx'', ''.pdf''])
       (hrefs html)"

text \<open>
  Lines 278 to 292: the loop over the candidates, with \<open>df\<close> still \<open>None\<close> on entry of
  every round. A failing download, an unknown format, a reader that raises and a PDF
  without a table send the loop to the next candidate.
\<close>

fun try_candidates :: "env \<Rightarrow> string \<Rightarrow> string list \<Rightarrow> dataframe option \<times> effect list" where
  "try_candidates e base_url [] = (None, [])"
| "try_candidates e base_url (link # rest) =
     (let d = download_url_bytes e link base_url;
          continue = (let r = try_candidates e base_url rest in (fst r, snd d @ snd r))
      in case fst d of
           None \<Rightarrow> continue
         | Some (content_bytes, content_type, real_url) \<Rightarrow>
             (let ftype = detect_file_type real_url content_type (magic_mime content_bytes)
              in if ftype = Some Csv \<or> ftype = Some Xlsx then
                   (case parse_table_from_bytes content_bytes ftype of
                      Inr df \<Rightarrow> (df, snd d)
                    | Inl _ \<Rightarrow> continue)
                 else if ftype = Some Pdf then
                   (case pdf_table content_bytes of
                      Some df \<Rightarrow> (Some df, snd d)
                    | None \<Rightarrow> continue)
                 else continue))"

text \<open>Lines 270 to 292: the first inline table, else the candidates.\<close>

definition locate_dataset :: "env \<Rightarrow> parsed_html \<Rightarrow> string \<Rightarrow> dataframe option \<times> effect list" where
  "locate_dataset e html base_url =
     (case html_tables html of
        t # _ \<Rightarrow> (Some t, [])
      | [] \<Rightarrow> try_candidates e base_url (dataset_candidates html))"

text \<open>\<open>\{[\s\S]*"answer"[\s\S]*\}\<close>\<close>

definition answer_object_re :: re where
  "answer_object_re =
     cat [Lit ''{'', Star any_char, Lit ([dquote] @ ''answer'' @ [dquote]), Star any_char, Lit ''}'']"

text \<open>
  Lines 295 to 304: the answer a script carries. The first script whose matched text
  decodes to an object with the key \<open>answer\<close> gives it; a text that does not decode, or
  decodes to something without that key, sends the loop to the next script.
\<close>

definition answer_in_script :: "env \<Rightarrow> string \<Rightarrow> json option" where
  "answer_in_script e st =
     (case search answer_object_re st of
        None \<Rightarrow> None
      | Some jm \<Rightarrow>
          (case json_loads e (group jm 0) of
             Some (JObj kvs) \<Rightarrow> map_of kvs ''answer''
           | _ \<Rightarrow> None))"

fun script_answer :: "env \<Rightarrow> string list \<Rightarrow> json option" where
  "script_answer e [] = None"
| "script_answer e (st # rest) =
     (case answer_in_script e st of
        Some a \<Rightarrow> Some a
      | None \<Rightarrow> script_answer e rest)"

section \<open>Pipeline Orchestrator: \<open>handle_quiz_page\<close>\<close>

text \<open>
  \<open>handle_quiz_page(html, page, email, secret, base_url)\<close>: the payload dict, or the
  exception that leaves the function, with the downloads and charts made on the way.
  The \<open>page\<close> is only asked for its origin, which the environment holds.
\<close>

definition handle_quiz_page ::
  "env \<Rightarrow> parsed_html \<Rightarrow> json \<Rightarrow> json \<Rightarrow> string
     \<Rightarrow> (py_error + (string \<times> json) list) \<times> effect list" where
  "handle_quiz_page e html email secret base_url =
     (let submit_url = discover_submit_url e html base_url
      in if \<not> opt_truthy submit_url
         then (Inl (RuntimeError ''submit_url not found on page''), [])
         else
           (let head = [(''email'', email), (''secret'', secret), (''url'', JStr base_url)];
                tail = [(''submit_url'', JStr (opt_str submit_url))];
                located = locate_dataset e html base_url
            in case fst located of
                 None \<Rightarrow>
                   (case script_answer e (scripts html) of
                      Some a \<Rightarrow> (Inr (head @ [(''answer'', a)] @ tail), snd located)
                    | None \<Rightarrow>
                        (Inr (head @ [(''answer'', JStr ''unable to locate dataset'')] @ tail),
                         snd located))
               | Some df \<Rightarrow>
                   (let r = answer_entries e df (body_text html)
                    in (case fst r of
                          Inl err \<Rightarrow> Inl err
                        | Inr entries \<Rightarrow> Inr (head @ entries @ tail),
                        snd located @ snd r))))"

section \<open>JSON text\<close>

text \<open>
  The body of the final POST is \<open>json.dumps(payload)\<close>, which \<open>requests\<close> computes
  for its \<open>json=\<close> argument. \<open>json_dumps\<close> is that text: members and items are joined
  by \<open>", "\<close>, a key and its value by \<open>": "\<close>; in a string the quote, the backslash
  and the control characters are escaped, and so is every character outside the
  printable ASCII range; a float is written by Python's \<open>repr\<close>, the parameter
  \<open>float_repr\<close>.
\<close>

definition backslash :: char where
  "backslash = CHR 0x5C"

definition hex_digit :: "nat \<Rightarrow> char" where
  "hex_digit n = ''0123456789abcdef'' ! n"


definition short_escapes :: "(char \<times> char) list" where
  "short_escapes =
     [(dquote, dquote), (backslash, backslash), (CHR 0x0A, CHR ''n''), (CHR 0x0D, CHR ''r''),
      (CHR 0x09, CHR ''t''), (CHR 0x08, CHR ''b''), (CHR 0x0C, CHR ''f'')]"

definition escape_char :: "char \<Rightarrow> string" where
  "escape_char c =
     (case map_of short_escapes c of
        Some e \<Rightarrow> [backslash, e]
      | None \<Rightarrow>
          if (of_char c :: nat) < 32 \<or> 126 < (of_char c :: nat)
          then [backslash, CHR ''u'', CHR ''0'', CHR ''0'',
                hex_digit (of_char c div 16), hex_digit (of_char c mod 16)]
          else [c])"

definition json_str :: "string \<Rightarrow> string" where
  "json_str s = dquote # concat (map escape_char s) @ [dquote]"

fun join_comma :: "string list \<Rightarrow> string" where
  "join_comma [] = []"
| "join_comma [x] = x"
| "join_comma (x # xs) = x @ '', '' @ join_comma xs"

fun json_dumps :: "(rat \<Rightarrow> string) \<Rightarrow> json \<Rightarrow> string" where
  "json_dumps fr JNull = ''null''"
| "json_dumps fr (JBool b) = (if b then ''true'' else ''false'')"
| "json_dumps fr (JInt i) = int_str i"
| "json_dumps fr (JFloat r) = fr r"
| "json_dumps fr (JStr s) = json_str s"
| "json_dumps fr (JArr xs) = ''['' @ join_comma (map (json_dumps fr) xs) @ '']''"
| "json_dumps fr (JObj kvs) =
     ''{'' @ join_comma (map (\<lambda>kv. json_str (fst kv) @ '': '' @ json_dumps fr (snd kv)) kvs) @ ''}''"























section \<open>The worker: \<open>solve_quiz_task\<close>\<close>

text \<open>\<open>d.pop(k)\<close>: the value and the dict without the key, \<open>None\<close> for \<open>KeyError\<close>.\<close>

definition dict_pop :: "(string \<times> json) list \<Rightarrow> string \<Rightarrow> (json \<times> (string \<times> json) list) option" where
  "dict_pop d k =
     (case map_of d k of
        None \<Rightarrow> None
      | Some v \<Rightarrow> Some (v, filter (\<lambda>kv. fst kv \<noteq> k) d))"

text \<open>
  \<open>solve_quiz_task(email, secret, url)\<close> from the rendered page on (\<open>html\<close> is
  \<open>page.content()\<close> as parsed): the handler's payload loses its \<open>submit_url\<close>, the
  rest is posted there as JSON, and the response is decoded, or wrapped as \<open>raw\<close> text
  when it is not JSON. An exception of the handler or of the POST leaves the function.
\<close>

definition solve_quiz_task ::
  "env \<Rightarrow> parsed_html \<Rightarrow> json \<Rightarrow> json \<Rightarrow> string \<Rightarrow> (py_error + json) \<times> effect list" where
  "solve_quiz_task e html email secret url =
     (let r = handle_quiz_page e html email secret url
      in case fst r of
           Inl err \<Rightarrow> (Inl err, snd r)
         | Inr payload \<Rightarrow>
             (case dict_pop payload ''submit_url'' of
                None \<Rightarrow> (Inl (MissingKey ''submit_url''), snd r)
              | Some (submit_url, payload) \<Rightarrow>
                  (case submit_url of
                     JStr target \<Rightarrow>
                       (let body = json_dumps (float_repr e) (JObj payload)
                        in (case http_post e target body of
                              None \<Rightarrow> Inl RequestError
                            | Some txt \<Rightarrow>
                                (case json_loads e txt of
                                   Some j \<Rightarrow> Inr j
                                 | None \<Rightarrow> Inr (JObj [(''raw'', JStr txt)])),
                            snd r @ [Post target body]))
                   | _ \<Rightarrow> (Inl RequestError, snd r))))"

section \<open>Inputs of the runs below\<close>

text \<open>
  An environment for the runs below. Its \<open>urljoin\<close> is urllib's on the references those
  runs resolve (absolute ones, and paths from the root of \<open>http://host\<close>); its
  \<open>json_loads\<close> is Python's on the texts those runs decode (one of them is a JSON
  object, the others are not JSON); no download succeeds and the chart is a fixed image.
\<close>

text \<open>A float formatting that is never consulted on tables without float cells.\<close>

definition repr_unused :: "rat \<Rightarrow> string" where
  "repr_unused r = ''0.0''"

definition urljoin_host :: "string \<Rightarrow> string \<Rightarrow> string" where
  "urljoin_host base u =
     (if startswith u ''http://'' \<or> startswith u ''https://'' then u else ''http://host'' @ u)"

definition answer_5_text :: string where
  "answer_5_text = ''{'' @ [dquote] @ ''answer'' @ [dquote] @ '': 5}''"

definition json_loads_answer_5 :: "string \<Rightarrow> json option" where
  "json_loads_answer_5 s = (if s = answer_5_text then Some (JObj [(''answer'', JInt 5)]) else None)"

definition env_offline :: env where
  "env_offline =
     \<lparr> float_repr = repr_unused,
       pandas_corr = (\<lambda>a b. Inl ''unused''),
       savefig = (\<lambda>df call. Inr ''iVBORw0KGgo=''),
       urljoin = urljoin_host,
       json_loads = json_loads_answer_5,
       page_origin = None,
       url_origin = (\<lambda>u. Some ''http://host''),
       sub_template = (\<lambda>s. None),
       http_get = (\<lambda>u. None),
       http_post = (\<lambda>u body. Some ''{}'') \<rparr>"




definition table_total_sales :: dataframe where
  "table_total_sales = [(''total sales'', [IntV 1, IntV 2, IntV 3])]"

definition table_id_sales :: dataframe where
  "table_id_sales = [(''Id'', [IntV 1, IntV 2]), (''Sales'', [IntV 30, IntV 40])]"

text \<open>
  Pages for the runs below, all loaded from \<open>http://host/quiz\<close>.
\<close>

definition page_no_target :: parsed_html where
  "page_no_target =
     \<lparr> body_text = ''Welcome to the quiz'', scripts = [], form_action = None,
       hrefs = [''/data.csv''], pre_code = [], html_tables = [] \<rparr>"


definition page_script_answer :: parsed_html where
  "page_script_answer =
     \<lparr> body_text = ''Post to http://host/submit'', scripts = [answer_5_text],
       form_action = None, hrefs = [], pre_code = [], html_tables = [] \<rparr>"

definition script_with_braces :: string where
  "script_with_braces = ''var d = '' @ answer_5_text @ ''; if (d) { go(); }''"

definition page_script_braces :: parsed_html where
  "page_script_braces =
     \<lparr> body_text = ''Post to http://host/submit'', scripts = [script_with_braces],
       form_action = None, hrefs = [], pre_code = [], html_tables = [] \<rparr>"



text \<open>
  A page with an inline table and a question about its mean, and an environment whose
  \<open>repr\<close> writes the float 3/2 as Python does.
\<close>

definition repr_halves :: "rat \<Rightarrow> string" where
  "repr_halves r = (if r = 3 / 2 then ''1.5'' else ''0.0'')"

definition env_halves :: env where
  "env_halves = env_offline \<lparr> float_repr := repr_halves \<rparr>"



definition sent_mean :: "(string \<times> json) list" where
  "sent_mean =
     [(''email'', JStr ''a@b.c''), (''secret'', JStr ''s3cret''), (''url'', JStr ''http://host/quiz''),
      (''answer'', JFloat (3 / 2))]"

section \<open>Evaluation rules for concrete strings\<close>

lemma lower_char_simps [simp]:
  "lower_char c = (case map_of (zip upper_letters lower_letters) c of Some d \<Rightarrow> d | None \<Rightarrow> c)"
  by (rule lower_char_def)

lemmas string_eval =
  lower_def upper_letters_def lower_letters_def startswith_def endswith_def
  is_space_def is_digit_def strip_def

section \<open>The front door: order of the checks\<close>

lemma quiz_object_status:
  "status_of (quiz EXPECTED_SECRET solve (Some (JObj kvs))) =
     (case EXPECTED_SECRET of
        None \<Rightarrow> Some 500
      | Some expected \<Rightarrow>
          if dict_get kvs ''secret'' \<noteq> JStr expected then Some 403
          else if \<not> truthy (dict_get kvs ''email'') \<or> \<not> truthy (dict_get kvs ''url'') then Some 400
          else (case solve (dict_get kvs ''email'') (dict_get kvs ''secret'') (dict_get kvs ''url'') of
                  Inr _ \<Rightarrow> Some 200 | Inl _ \<Rightarrow> Some 500))"
  by (simp add: quiz_def status_of_def Let_def split: option.splits sum.splits)

text \<open>
  Claim C10, as the code has it. For every POST to \<open>/quiz\<close> whose body decodes to a JSON
  object: with the expected secret unset the response is HTTP 500 whatever the object
  holds; with it set, a secret that differs from it gives HTTP 403 even when email or url
  is missing; and HTTP 400 is returned only when the secret matches (and then exactly
  when email or url is missing or falsy). The JSON check comes before all of this: a
  body that is not JSON is answered with HTTP 400 before the secret is looked at.
\<close>

theorem quiz_check_order:
  "status_of (quiz None solve (Some (JObj kvs))) = Some 500
   \<and> (dict_get kvs ''secret'' \<noteq> JStr expected
        \<longrightarrow> status_of (quiz (Some expected) solve (Some (JObj kvs))) = Some 403)
   \<and> (status_of (quiz (Some expected) solve (Some (JObj kvs))) = Some 400
        \<longrightarrow> dict_get kvs ''secret'' = JStr expected
            \<and> (\<not> truthy (dict_get kvs ''email'') \<or> \<not> truthy (dict_get kvs ''url'')))
   \<and> quiz EXPECTED_SECRET solve None = Inr (error_body ''Invalid JSON'', 400)"
proof -
  have unset: "status_of (quiz None solve (Some (JObj kvs))) = Some 500"
    by (simp add: quiz_object_status)
  have forbidden: "dict_get kvs ''secret'' \<noteq> JStr expected
        \<longrightarrow> status_of (quiz (Some expected) solve (Some (JObj kvs))) = Some 403"
    by (simp add: quiz_object_status)
  have missing: "status_of (quiz (Some expected) solve (Some (JObj kvs))) = Some 400
        \<longrightarrow> dict_get kvs ''secret'' = JStr expected
            \<and> (\<not> truthy (dict_get kvs ''email'') \<or> \<not> truthy (dict_get kvs ''url''))"
    by (auto simp add: quiz_object_status split: if_splits sum.splits)
  have invalid: "quiz EXPECTED_SECRET solve None = Inr (error_body ''Invalid JSON'', 400)"
    by (simp add: quiz_def)
  from unset forbidden missing invalid show ?thesis by blast
qed

text \<open>
  The theorem at a request that has a wrong secret and neither email nor url:
  the answer is 403, not 400.
\<close>

theorem quiz_check_order_witness:
  "status_of (quiz None solver_unused (Some (JObj [(''secret'', JStr ''guess'')]))) = Some 500
   \<and> dict_get [(''secret'', JStr ''guess'')] ''secret'' \<noteq> JStr ''s3cret''
   \<and> status_of (quiz (Some ''s3cret'') solver_unused (Some (JObj [(''secret'', JStr ''guess'')])))
       = Some 403
   \<and> status_of (quiz (Some ''s3cret'') solver_unused (Some (JObj [(''secret'', JStr ''s3cret'')])))
       = Some 400
   \<and> dict_get [(''secret'', JStr ''s3cret'')] ''secret'' = JStr ''s3cret''"
proof -
  have differs: "dict_get [(''secret'', JStr ''guess'')] ''secret'' \<noteq> JStr ''s3cret''"
    by (simp add: dict_get_def)
  have bad: "status_of (quiz (Some ''s3cret'') solver_unused
               (Some (JObj [(''secret'', JStr ''s3cret'')]))) = Some 400"
    by (simp add: quiz_def status_of_def dict_get_def)
  from differs bad
    quiz_check_order [of solver_unused "[(''secret'', JStr ''guess'')]" "''s3cret''" None]
    quiz_check_order [of solver_unused "[(''secret'', JStr ''s3cret'')]" "''s3cret''" None]
  show ?thesis by blast
qed

text \<open>
  The claim as stated fails: with the expected secret unset, a body that is not JSON is
  answered with HTTP 400, not 500.
\<close>

theorem quiz_unset_secret_counterexample:
  "status_of (quiz None solver_unused None) = Some 400
   \<and> status_of (quiz None solver_unused None) \<noteq> Some 500"
  by (simp add: quiz_def status_of_def)

section \<open>Format Detector: which signal wins\<close>

lemma detect_file_type_stages:
  "detect_file_type url ct sn =
     (case content_type_format ct of
        Some f \<Rightarrow> Some f
      | None \<Rightarrow> (case sniffed_format sn of Some f \<Rightarrow> Some f | None \<Rightarrow> suffix_format url))"
  by (simp add: detect_file_type_def content_type_format_def sniffed_format_def suffix_format_def
        Let_def split: sniffed.splits)

text \<open>
  Claim C2, as the code has it. The declared content-type wins over both other signals;
  when it names no format, the sniffed content signature wins over the URL suffix; the
  URL suffix decides only when neither the content-type nor the sniffing names a format.
\<close>

theorem detect_file_type_priority:
  "(content_type_format ct = Some f \<longrightarrow> detect_file_type url ct sn = Some f)
   \<and> (content_type_format ct = None \<and> sniffed_format sn = Some f
        \<longrightarrow> detect_file_type url ct sn = Some f)
   \<and> (content_type_format ct = None \<and> sniffed_format sn = None
        \<longrightarrow> detect_file_type url ct sn = suffix_format url)"
  by (simp add: detect_file_type_stages)

text \<open>
  The theorem on three downloads of \<open>http://host/data.csv\<close>: declared as a
  spreadsheet; undeclared with a PDF signature; undeclared with no sniffing library.
\<close>

theorem detect_file_type_priority_witness:
  "content_type_format ''application/vnd.ms-excel'' = Some Xlsx
   \<and> detect_file_type ''http://host/data.csv'' ''application/vnd.ms-excel''
        (Mime ''application/pdf'') = Some Xlsx
   \<and> content_type_format '''' = None
   \<and> sniffed_format (Mime ''application/pdf'') = Some Pdf
   \<and> detect_file_type ''http://host/data.csv'' '''' (Mime ''application/pdf'') = Some Pdf
   \<and> sniffed_format MagicAbsent = None
   \<and> detect_file_type ''http://host/data.csv'' '''' MagicAbsent = Some Csv"
proof -
  have ct: "content_type_format ''application/vnd.ms-excel'' = Some Xlsx"
    by (simp add: content_type_format_def string_eval)
  have no_ct: "content_type_format '''' = None"
    by (simp add: content_type_format_def)
  have pdf: "sniffed_format (Mime ''application/pdf'') = Some Pdf"
    by (simp add: sniffed_format_def string_eval)
  have absent: "sniffed_format MagicAbsent = None"
    by (simp add: sniffed_format_def)
  have suffix: "suffix_format ''http://host/data.csv'' = Some Csv"
    by (simp add: suffix_format_def string_eval)
  from ct no_ct pdf absent suffix
    detect_file_type_priority [of "''application/vnd.ms-excel''" Xlsx "''http://host/data.csv''"
      "Mime ''application/pdf''"]
    detect_file_type_priority [of "''''" Pdf "''http://host/data.csv''" "Mime ''application/pdf''"]
    detect_file_type_priority [of "''''" Csv "''http://host/data.csv''" MagicAbsent]
  show ?thesis by simp
qed

text \<open>
  The claim as stated fails: with an empty content-type, a PDF signature and the URL
  suffix \<open>.csv\<close>, the detector returns the sniffed format, not the suffix's.
\<close>

theorem detect_file_type_suffix_counterexample:
  "content_type_format '''' = None
   \<and> sniffed_format (Mime ''application/pdf'') = Some Pdf
   \<and> suffix_format ''http://host/data.csv'' = Some Csv
   \<and> detect_file_type ''http://host/data.csv'' '''' (Mime ''application/pdf'') = Some Pdf"
  by (simp add: detect_file_type_def content_type_format_def sniffed_format_def
        suffix_format_def string_eval)

lemmas re_eval =
  sum_of_re_def mean_of_re_def correl_re_def xy_re_def loose_sum_re_def
  name_char_def dquote_def squote_def dot_def any_char_def group_def

lemmas table_eval =
  getitem_def coerce_numeric_def coerce_series_def to_numeric_def to_numeric_cell_def
  strip_non_numeric_def astype_str_def as_float_cell_def is_int_cell_def digits_value_def
  digit_value_def int_str_def columns_def

lemmas answer_eval =
  answer_entries_def clean_and_coerce_def compute_answer_def instr_truthy_def instr_str_def
  as_answer_def as_plot_def float_sum_def float_mean_def dropna_def cell_value_def is_str_cell_def
  df_plot_to_base64_def numeric_columns_def opt_truthy_def opt_str_def render_float_def
  py_round_def answer_json_def

lemmas fixture_eval =
  env_offline_def urljoin_host_def json_loads_answer_5_def answer_5_text_def repr_unused_def

section \<open>Table Normalizer: what happens to a column\<close>












section \<open>Answer Computer: sums, means, charts and the rendering of numbers\<close>










text \<open>
  Claim C3 on the code. The table has the one column \<open>total sales\<close> = [1, 2, 3], which
  holds \<open>sales\<close> as a substring. Asked for the sum of the sales column, the handler
  answers 6; asked for the mean of the sales column, it finds no column and answers
  \<open>no_answer_generated\<close>: the mean branch has no substring match.
\<close>

theorem mean_has_no_substring_match:
  "detect_instruction ''What is the mean of the sales column?''
     = [''op'' \<mapsto> ''mean'', ''col'' \<mapsto> ''sales'']
   \<and> answer_entries env_offline table_total_sales ''What is the mean of the sales column?''
       = (Inr [(''answer'', JStr ''no_answer_generated'')], [])
   \<and> answer_entries env_offline table_total_sales ''What is the sum of the sales column?''
       = (Inr [(''answer'', JInt 6)], [])"
  by (simp add: answer_eval table_eval re_eval string_eval fixture_eval table_total_sales_def
        detect_instruction_def Let_def)

text \<open>
  Claim C4 on the code. The table has the columns \<open>Id\<close> and \<open>Sales\<close>, and the page
  asks for a plot with \<open>x: id, y: sales\<close>. The captured name \<open>sales\<close> equals the
  column \<open>Sales\<close> up to letter case, yet the handler does not find it: it charts the
  first numeric column, \<open>Id\<close>, alone.
\<close>

theorem plot_y_is_matched_exactly:
  "detect_instruction ''Plot x: id, y: sales''
     = [''op'' \<mapsto> ''plot'', ''x'' \<mapsto> ''id'', ''y'' \<mapsto> ''sales'']
   \<and> lower ''Sales'' = lower ''sales''
   \<and> answer_entries env_offline table_id_sales ''Plot x: id, y: sales''
       = (Inr [(''answer'', JStr ''attached_plot''),
               (''attachment'', JStr ''data:image/png;base64,iVBORw0KGgo='')],
          [Plot (PlotSeries ''Id'')])"
  by (simp add: answer_eval table_eval re_eval string_eval fixture_eval table_id_sales_def
        detect_instruction_def Let_def)

lemmas rule_eval =
  submit_path_re_def submit_key_re_def quoted_submit_re_def submit_word_re_def brace_re_def
  origin_span_re_def any_submit_re_def answer_object_re_def quote_char_def url_char_def
  absolute_submit_url_def form_action_url_def live_origin_def fix_candidate_def
  fallback_submit_url_def discover_submit_url_def download_url_bytes_def
  parse_table_from_bytes_def dataset_candidates_def locate_dataset_def answer_in_script_def
  handle_quiz_page_def

section \<open>Submission-Target Resolver: no target, and the order of rules 3 and 4\<close>

lemma discover_none:
  assumes "\<not> opt_truthy (absolute_submit_url html)"
    and "\<not> opt_truthy (script_submit_url (scripts html))"
    and "\<not> opt_truthy (form_action_url e html base_url)"
    and "\<not> opt_truthy (href_submit_url e base_url (hrefs html))"
    and "\<not> opt_truthy (pre_code_url e base_url (pre_code html))"
    and "\<not> opt_truthy (fallback_submit_url html)"
  shows "\<not> opt_truthy (discover_submit_url e html base_url)"
  using assms by (simp add: discover_submit_url_def Let_def)

text \<open>
  Claim C5. On every page where none of the six rules yields a target (each gives
  \<open>None\<close> or an empty string), the handler raises \<open>RuntimeError\<close> with the message
  \<open>submit_url not found on page\<close>: no payload is returned, and nothing has been
  downloaded or drawn. The outcome does not depend on the tables, the links to data
  files or the instruction on the page.
\<close>

theorem no_submit_target_raises:
  assumes "\<not> opt_truthy (absolute_submit_url html)"
    and "\<not> opt_truthy (script_submit_url (scripts html))"
    and "\<not> opt_truthy (form_action_url e html base_url)"
    and "\<not> opt_truthy (href_submit_url e base_url (hrefs html))"
    and "\<not> opt_truthy (pre_code_url e base_url (pre_code html))"
    and "\<not> opt_truthy (fallback_submit_url html)"
  shows "handle_quiz_page e html email secret base_url
           = (Inl (RuntimeError ''submit_url not found on page''), [])"
  using discover_none [OF assms] by (simp add: handle_quiz_page_def Let_def)

text \<open>
  The theorem on a page with a link to a data file and no submission target: the file
  is a candidate, and it is not downloaded.
\<close>

theorem no_submit_target_raises_witness:
  "absolute_submit_url page_no_target = None
   \<and> script_submit_url (scripts page_no_target) = None
   \<and> form_action_url env_offline page_no_target ''http://host/quiz'' = None
   \<and> href_submit_url env_offline ''http://host/quiz'' (hrefs page_no_target) = None
   \<and> pre_code_url env_offline ''http://host/quiz'' (pre_code page_no_target) = None
   \<and> fallback_submit_url page_no_target = None
   \<and> dataset_candidates page_no_target = [''/data.csv'']
   \<and> handle_quiz_page env_offline page_no_target (JStr ''a@b.c'') (JStr ''s3cret'') ''http://host/quiz''
       = (Inl (RuntimeError ''submit_url not found on page''), [])"
proof -
  have r1: "absolute_submit_url page_no_target = None"
    by (simp add: absolute_submit_url_def submit_path_re_def page_no_target_def string_eval)
  have r2: "script_submit_url (scripts page_no_target) = None"
    by (simp add: page_no_target_def)
  have r3: "form_action_url env_offline page_no_target ''http://host/quiz'' = None"
    by (simp add: form_action_url_def page_no_target_def)
  have r4: "href_submit_url env_offline ''http://host/quiz'' (hrefs page_no_target) = None"
    by (simp add: submit_word_re_def page_no_target_def string_eval)
  have r5: "pre_code_url env_offline ''http://host/quiz'' (pre_code page_no_target) = None"
    by (simp add: page_no_target_def)
  have r6: "fallback_submit_url page_no_target = None"
    by (simp add: fallback_submit_url_def any_submit_re_def page_no_target_def string_eval)
  have cands: "dataset_candidates page_no_target = [''/data.csv'']"
    by (simp add: dataset_candidates_def page_no_target_def string_eval)
  from r1 r2 r3 r4 r5 r6 cands
    no_submit_target_raises [of page_no_target env_offline "''http://host/quiz''"
      "JStr ''a@b.c''" "JStr ''s3cret''"]
  show ?thesis by (simp add: opt_truthy_def)
qed






section \<open>Dataset Locator: the answer a script carries\<close>

lemma script_answer_first:
  assumes "\<forall>s \<in> set before. answer_in_script e s = None"
    and "answer_in_script e st = Some a"
  shows "script_answer e (before @ st # rest) = Some a"
  using assms by (induction before) simp_all

text \<open>
  Claim C6, as the code has it. Take a page with a submission target, no inline table
  and no candidate link that yields a table. If, in the first script where the pattern
  \<open>\{[\s\S]*"answer"[\s\S]*\}\<close> matches with a text that decodes to a JSON object with
  the key \<open>answer\<close>, that value is \<open>a\<close> (and no earlier script does so), then the
  handler returns the payload whose answer is \<open>a\<close> itself, whatever its type, and it
  draws no chart: the instruction on the page plays no part. The matched text runs
  from the first opening brace of the script to its last closing brace.
\<close>

theorem script_answer_short_circuit:
  assumes "opt_truthy (discover_submit_url e html base_url)"
    and "fst (locate_dataset e html base_url) = None"
    and "scripts html = before @ st # rest"
    and "\<forall>s \<in> set before. answer_in_script e s = None"
    and "search answer_object_re st = Some jm"
    and "json_loads e (group jm 0) = Some (JObj kvs)"
    and "map_of kvs ''answer'' = Some a"
  shows "handle_quiz_page e html email secret base_url
           = (Inr [(''email'', email), (''secret'', secret), (''url'', JStr base_url),
                   (''answer'', a),
                   (''submit_url'', JStr (opt_str (discover_submit_url e html base_url)))],
              snd (locate_dataset e html base_url))"
proof -
  have "answer_in_script e st = Some a"
    using assms(5-7) by (simp add: answer_in_script_def)
  then have "script_answer e (scripts html) = Some a"
    using assms(3,4) script_answer_first by simp
  then show ?thesis
    using assms(1,2) by (simp add: handle_quiz_page_def Let_def)
qed

lemma script_answer_page_target:
  "discover_submit_url env_offline page_script_answer ''http://host/quiz''
     = Some ''http://host/submit''"
  by (simp add: discover_submit_url_def absolute_submit_url_def submit_path_re_def url_char_def
        group_def dquote_def squote_def page_script_answer_def string_eval opt_truthy_def)

lemma script_answer_page_no_table:
  "locate_dataset env_offline page_script_answer ''http://host/quiz'' = (None, [])"
  by (simp add: locate_dataset_def dataset_candidates_def page_script_answer_def)

lemma answer_5_match:
  "\<exists>jm. search answer_object_re answer_5_text = Some jm \<and> group jm 0 = answer_5_text"
  by (simp add: answer_object_re_def answer_5_text_def any_char_def group_def dquote_def
        string_eval)

text \<open>The theorem on a page whose only script is the object \<open>{"answer": 5}\<close>.\<close>

theorem script_answer_short_circuit_witness:
  "discover_submit_url env_offline page_script_answer ''http://host/quiz''
     = Some ''http://host/submit''
   \<and> locate_dataset env_offline page_script_answer ''http://host/quiz'' = (None, [])
   \<and> scripts page_script_answer = [] @ answer_5_text # []
   \<and> json_loads env_offline answer_5_text = Some (JObj [(''answer'', JInt 5)])
   \<and> handle_quiz_page env_offline page_script_answer (JStr ''a@b.c'') (JStr ''s3cret'')
        ''http://host/quiz''
       = (Inr [(''email'', JStr ''a@b.c''), (''secret'', JStr ''s3cret''),
               (''url'', JStr ''http://host/quiz''), (''answer'', JInt 5),
               (''submit_url'', JStr ''http://host/submit'')], [])"
proof -
  obtain jm where m: "search answer_object_re answer_5_text = Some jm"
    and g: "group jm 0 = answer_5_text"
    using answer_5_match by blast
  have target: "opt_truthy (discover_submit_url env_offline page_script_answer ''http://host/quiz'')"
    by (simp add: script_answer_page_target opt_truthy_def)
  have none: "fst (locate_dataset env_offline page_script_answer ''http://host/quiz'') = None"
    by (simp add: script_answer_page_no_table)
  have sc: "scripts page_script_answer = [] @ answer_5_text # []"
    by (simp add: page_script_answer_def)
  have before: "\<forall>s \<in> set []. answer_in_script env_offline s = None"
    by simp
  have loads: "json_loads env_offline answer_5_text = Some (JObj [(''answer'', JInt 5)])"
    by (simp add: env_offline_def json_loads_answer_5_def)
  have loads_g: "json_loads env_offline (group jm 0) = Some (JObj [(''answer'', JInt 5)])"
    using loads g by simp
  have key: "map_of [(''answer'', JInt 5)] ''answer'' = Some (JInt 5)"
    by simp
  have "handle_quiz_page env_offline page_script_answer (JStr ''a@b.c'') (JStr ''s3cret'')
          ''http://host/quiz''
        = (Inr [(''email'', JStr ''a@b.c''), (''secret'', JStr ''s3cret''),
                (''url'', JStr ''http://host/quiz''), (''answer'', JInt 5),
                (''submit_url'', JStr (opt_str (discover_submit_url env_offline page_script_answer
                    ''http://host/quiz'')))],
           snd (locate_dataset env_offline page_script_answer ''http://host/quiz''))"
    by (rule script_answer_short_circuit [OF target none sc before m loads_g key])
  then show ?thesis
    using sc loads by (simp add: script_answer_page_target script_answer_page_no_table opt_str_def)
qed

text \<open>
  The claim as stated fails: the script \<open>var d = {"answer": 5}; if (d) { go(); }\<close>
  contains the JSON object \<open>{"answer": 5}\<close>, yet the matched text runs on to the last
  brace of the script, it is not JSON, and the handler answers that it found no dataset.
\<close>

theorem script_with_braces_counterexample:
  "contains script_with_braces answer_5_text
   \<and> json_loads env_offline answer_5_text = Some (JObj [(''answer'', JInt 5)])
   \<and> scripts page_script_braces = [script_with_braces]
   \<and> html_tables page_script_braces = []
   \<and> discover_submit_url env_offline page_script_braces ''http://host/quiz''
       = Some ''http://host/submit''
   \<and> fst (locate_dataset env_offline page_script_braces ''http://host/quiz'') = None
   \<and> handle_quiz_page env_offline page_script_braces (JStr ''a@b.c'') (JStr ''s3cret'')
        ''http://host/quiz''
       = (Inr [(''email'', JStr ''a@b.c''), (''secret'', JStr ''s3cret''),
               (''url'', JStr ''http://host/quiz''),
               (''answer'', JStr ''unable to locate dataset''),
               (''submit_url'', JStr ''http://host/submit'')], [])"
  by (simp add: rule_eval page_script_braces_def script_with_braces_def fixture_eval re_eval
        string_eval opt_truthy_def opt_str_def)

section \<open>A page with a table and a question about its mean\<close>











lemma sent_mean_text:
  "json_dumps (float_repr env_halves) (JObj sent_mean)
     = ''{'' @ [dquote] @ ''email'' @ [dquote] @ '': '' @ [dquote] @ ''a@b.c'' @ [dquote]
        @ '', '' @ [dquote] @ ''secret'' @ [dquote] @ '': '' @ [dquote] @ ''s3cret'' @ [dquote]
        @ '', '' @ [dquote] @ ''url'' @ [dquote] @ '': '' @ [dquote] @ ''http://host/quiz'' @ [dquote]
        @ '', '' @ [dquote] @ ''answer'' @ [dquote] @ '': 1.5}''"
  by (simp add: sent_mean_def env_halves_def env_offline_def repr_halves_def json_str_def
        escape_char_def short_escapes_def dquote_def backslash_def)

section \<open>JSON text: writing a value and reading it back\<close>

subsection \<open>Strings\<close>








subsection \<open>Numbers\<close>



declare nat_digits.simps [simp del]


















subsection \<open>Values\<close>




























section \<open>The worker: what is posted\<close>





end
